theory Spec2Isabelle
  imports Complex_Main
begin

chapter \<open>The battle engine of the Pokedex server\<close>

text \<open>
  A shallow embedding of the battle engine: the damage computation, the status upkeep,
  the resolution of a turn, the hydration of the two combatants from the catalog and the
  three tool handlers \<open>start_battle\<close>, \<open>make_move\<close> and \<open>use_item\<close>. The engine
  embedded is the one with a battle log, status conditions, weather and items. The
  repository also holds an earlier variant of the same file without them (its encounter
  starts at turn 0 and its damage has no effectiveness or burn factor); it is not
  modelled here.

  Randomness and the catalog are the two things outside the program. Every value
  \<open>Math.random()\<close> returns is an argument of the function that draws it, and the
  catalog is a function that says what each request returns.
\<close>

section \<open>JavaScript numbers\<close>

text \<open>
  Every numeric field of the battle engine is a JavaScript \<open>number\<close>. The engine divides
  by a statistic that can be zero, so the model keeps the three special values a division
  can produce: a number is an exact rational, \<open>Infinity\<close>, \<open>-Infinity\<close> or \<open>NaN\<close>.
  The operations below follow the language's rules for these values. Two things are
  idealised: finite arithmetic is exact (the rounding of doubles is not modelled), and
  zero carries no sign (a zero divisor is read as \<open>+0\<close>, which is what the literal \<open>0\<close>
  of the source is).
\<close>

datatype jsnum = Fin rat | PInf | NInf | NaN

definition infsgn :: "rat \<Rightarrow> jsnum" where
  \<comment> \<open>an infinity times, or a zero dividing, a finite number of the given sign\<close>
  "infsgn q = (if q = 0 then NaN else if 0 < q then PInf else NInf)"

fun jneg :: "jsnum \<Rightarrow> jsnum" where
  "jneg (Fin a) = Fin (- a)"
| "jneg PInf = NInf"
| "jneg NInf = PInf"
| "jneg NaN = NaN"

fun jadd :: "jsnum \<Rightarrow> jsnum \<Rightarrow> jsnum" where
  "jadd (Fin a) (Fin b) = Fin (a + b)"
| "jadd (Fin a) PInf = PInf"
| "jadd (Fin a) NInf = NInf"
| "jadd PInf (Fin b) = PInf"
| "jadd NInf (Fin b) = NInf"
| "jadd PInf PInf = PInf"
| "jadd NInf NInf = NInf"
| "jadd PInf NInf = NaN"
| "jadd NInf PInf = NaN"
| "jadd NaN y = NaN"
| "jadd x NaN = NaN"

definition jsub :: "jsnum \<Rightarrow> jsnum \<Rightarrow> jsnum" where
  "jsub x y = jadd x (jneg y)"

fun jmul :: "jsnum \<Rightarrow> jsnum \<Rightarrow> jsnum" where
  "jmul (Fin a) (Fin b) = Fin (a * b)"
| "jmul (Fin a) PInf = infsgn a"
| "jmul (Fin a) NInf = infsgn (- a)"
| "jmul PInf (Fin b) = infsgn b"
| "jmul NInf (Fin b) = infsgn (- b)"
| "jmul PInf PInf = PInf"
| "jmul NInf NInf = PInf"
| "jmul PInf NInf = NInf"
| "jmul NInf PInf = NInf"
| "jmul NaN y = NaN"
| "jmul x NaN = NaN"

fun jdiv :: "jsnum \<Rightarrow> jsnum \<Rightarrow> jsnum" where
  "jdiv (Fin a) (Fin b) = (if b = 0 then infsgn a else Fin (a / b))"
| "jdiv (Fin a) PInf = Fin 0"
| "jdiv (Fin a) NInf = Fin 0"
| "jdiv PInf (Fin b) = (if b < 0 then NInf else PInf)"
| "jdiv NInf (Fin b) = (if b < 0 then PInf else NInf)"
| "jdiv PInf PInf = NaN"
| "jdiv NInf NInf = NaN"
| "jdiv PInf NInf = NaN"
| "jdiv NInf PInf = NaN"
| "jdiv NaN y = NaN"
| "jdiv x NaN = NaN"

fun jfloor :: "jsnum \<Rightarrow> jsnum" where
  \<comment> \<open>\<open>Math.floor\<close>\<close>
  "jfloor (Fin a) = Fin (of_int \<lfloor>a\<rfloor>)"
| "jfloor x = x"

fun jle :: "jsnum \<Rightarrow> jsnum \<Rightarrow> bool" where
  \<comment> \<open>\<open>x <= y\<close>: false as soon as one side is \<open>NaN\<close>\<close>
  "jle (Fin a) (Fin b) = (a \<le> b)"
| "jle NaN y = False"
| "jle x NaN = False"
| "jle NInf y = True"
| "jle x PInf = True"
| "jle PInf y = False"
| "jle x NInf = False"

fun jlt :: "jsnum \<Rightarrow> jsnum \<Rightarrow> bool" where
  \<comment> \<open>\<open>x < y\<close>; the source's \<open>x > 0\<close> is \<open>jlt (Fin 0) x\<close>\<close>
  "jlt (Fin a) (Fin b) = (a < b)"
| "jlt NaN y = False"
| "jlt x NaN = False"
| "jlt PInf y = False"
| "jlt x NInf = False"
| "jlt NInf y = True"
| "jlt x PInf = True"

fun jmax :: "jsnum \<Rightarrow> jsnum \<Rightarrow> jsnum" where
  \<comment> \<open>\<open>Math.max\<close>: \<open>NaN\<close> as soon as one argument is \<open>NaN\<close>\<close>
  "jmax (Fin a) (Fin b) = Fin (max a b)"
| "jmax NaN y = NaN"
| "jmax x NaN = NaN"
| "jmax PInf y = PInf"
| "jmax x PInf = PInf"
| "jmax NInf y = y"
| "jmax x NInf = x"

fun jmin :: "jsnum \<Rightarrow> jsnum \<Rightarrow> jsnum" where
  \<comment> \<open>\<open>Math.min\<close>\<close>
  "jmin (Fin a) (Fin b) = Fin (min a b)"
| "jmin NaN y = NaN"
| "jmin x NaN = NaN"
| "jmin NInf y = NInf"
| "jmin x NInf = NInf"
| "jmin PInf y = y"
| "jmin x PInf = x"

fun truthy :: "jsnum \<Rightarrow> bool" where
  \<comment> \<open>a number used as a condition: \<open>0\<close> and \<open>NaN\<close> are falsy\<close>
  "truthy (Fin a) = (a \<noteq> 0)"
| "truthy NaN = False"
| "truthy x = True"

definition orDefault :: "jsnum option \<Rightarrow> jsnum \<Rightarrow> jsnum" where
  \<comment> \<open>\<open>v || d\<close> for a numeric property that may be missing (\<open>None\<close> is \<open>undefined\<close>)\<close>
  "orDefault v d = (case v of None \<Rightarrow> d | Some x \<Rightarrow> if truthy x then x else d)"

definition jsIndex :: "'a list \<Rightarrow> jsnum \<Rightarrow> 'a option" where
  \<comment> \<open>\<open>xs[i]\<close> for a number \<open>i\<close>: \<open>undefined\<close> (\<open>None\<close>) unless \<open>i\<close> is an integer in range\<close>
  "jsIndex xs i =
     (case i of
        Fin q \<Rightarrow> (if q = of_int \<lfloor>q\<rfloor> \<and> 0 \<le> q \<and> nat \<lfloor>q\<rfloor> < length xs
                  then Some (xs ! nat \<lfloor>q\<rfloor>) else None)
      | _ \<Rightarrow> None)"


section \<open>Printing numbers\<close>

text \<open>
  Template literals turn numbers into text. Integers are printed in decimal (the source
  prints hit points, damage and the turn counter, which are integers whenever the
  statistics are), the special values by their names. A finite value that is not an
  integer is rendered as its exact fraction: the exact model has no double to print.
\<close>

function showNat :: "nat \<Rightarrow> string" where
  "showNat n =
     (if n < 10 then [char_of (48 + n)]
      else showNat (n div 10) @ [char_of (48 + n mod 10)])"
  by pat_completeness auto
termination
  by (relation "measure (\<lambda>n. n)") auto

definition showInt :: "int \<Rightarrow> string" where
  "showInt i = (if i < 0 then ''-'' @ showNat (nat (- i)) else showNat (nat i))"

fun numToString :: "jsnum \<Rightarrow> string" where
  "numToString (Fin q) =
     (if q = of_int \<lfloor>q\<rfloor> then showInt \<lfloor>q\<rfloor>
      else showInt (fst (quotient_of q)) @ ''/'' @ showInt (snd (quotient_of q)))"
| "numToString PInf = ''Infinity''"
| "numToString NInf = ''-Infinity''"
| "numToString NaN = ''NaN''"

fun joinWith :: "string \<Rightarrow> string list \<Rightarrow> string" where
  \<comment> \<open>\<open>Array.prototype.join\<close>\<close>
  "joinWith sep [] = []"
| "joinWith sep [x] = x"
| "joinWith sep (x # y # ys) = x @ sep @ joinWith sep (y # ys)"

section \<open>Data model\<close>

text \<open>
  The interfaces of the type declarations, one record each. Several interfaces name a
  field \<open>name\<close> or \<open>type\<close>; the records prefix those with the interface they belong to.
  A move has one field \<open>type\<close>: the engine reads it both as the elemental tag of the
  effectiveness chart and, compared with \<open>"physical"\<close>, as the move's category.
\<close>

datatype StatusType = StNone | Burn | Poison | Paralyze | Sleep

datatype WeatherType = WNone | Sunny | Rainy | Sandstorm | Hail

datatype StatName = StatAttack | StatDefense | StatSpecialAttack | StatSpecialDefense | StatSpeed

record PokemonType =
  type_name :: string

record BattleStats =
  hp :: jsnum
  attack :: jsnum
  defense :: jsnum
  specialAttack :: jsnum
  specialDefense :: jsnum
  speed :: jsnum

record BattleMove =
  move_name :: string
  power :: jsnum
  accuracy :: jsnum
  move_type :: string
  pp :: jsnum

record PokemonStatus =
  status_type :: StatusType
  turnsLeft :: jsnum

record ItemEffect =
  heal :: "jsnum option"
  effect_status :: "StatusType option"
  statBoost :: "(StatName \<times> jsnum) option"

record BattleItem =
  item_name :: string
  effect :: ItemEffect

record BattleWeather =
  weather_type :: WeatherType
  weather_turnsLeft :: jsnum

record StatModifiers =
  mod_attack :: jsnum
  mod_defense :: jsnum
  mod_specialAttack :: jsnum
  mod_specialDefense :: jsnum
  mod_speed :: jsnum

record BattlePokemon =
  pokemon_id :: jsnum
  pokemon_name :: string
  level :: jsnum
  types :: "PokemonType list"
  stats :: BattleStats
  moves :: "BattleMove list"
  currentHp :: jsnum
  status :: PokemonStatus
  statModifiers :: StatModifiers
  experience :: jsnum
  items :: "BattleItem list"

record BattleState =
  playerPokemon :: BattlePokemon
  opponentPokemon :: BattlePokemon
  turn :: jsnum
  weather :: BattleWeather
  battle_status :: string
  battleLog :: "string list"

datatype error = TypeError

section \<open>Type effectiveness and damage\<close>

definition typeChart :: "(string \<times> (string \<times> jsnum) list) list" where
  "typeChart =
     [(''fire'', [(''water'', Fin (1/2)), (''grass'', Fin 2), (''ice'', Fin 2)]),
      (''water'', [(''fire'', Fin 2), (''grass'', Fin (1/2)), (''ground'', Fin 2)]),
      (''grass'', [(''fire'', Fin (1/2)), (''water'', Fin 2), (''bug'', Fin (1/2))])]"

definition chartEntry :: "string \<Rightarrow> string \<Rightarrow> jsnum option" where
  \<comment> \<open>\<open>typeChart[attackerType]?.[defenderType]\<close>, \<open>None\<close> for \<open>undefined\<close>; the chart is
      read by its own entries (tags are elemental names, not names of \<open>Object.prototype\<close>)\<close>
  "chartEntry attackerType defenderType =
     (case map_of typeChart attackerType of
        None \<Rightarrow> None
      | Some row \<Rightarrow> map_of row defenderType)"

fun effectivenessLoop :: "string \<Rightarrow> jsnum \<Rightarrow> string list \<Rightarrow> jsnum" where
  \<comment> \<open>the \<open>for ... of\<close> loop, with the running \<open>effectiveness\<close> as accumulator\<close>
  "effectivenessLoop attackerType effectiveness [] = effectiveness"
| "effectivenessLoop attackerType effectiveness (defenderType # rest) =
     effectivenessLoop attackerType
       (case chartEntry attackerType defenderType of
          None \<Rightarrow> effectiveness
        | Some v \<Rightarrow> if truthy v then jmul effectiveness v else effectiveness)
       rest"

definition calculateTypeEffectiveness :: "string \<Rightarrow> string list \<Rightarrow> jsnum" where
  "calculateTypeEffectiveness attackerType defenderTypes =
     effectivenessLoop attackerType (Fin 1) defenderTypes"

definition attackStat :: "BattlePokemon \<Rightarrow> BattleMove \<Rightarrow> jsnum" where
  \<comment> \<open>\<open>const attack\<close> of \<open>calculateDamage\<close>\<close>
  "attackStat attacker move =
     (if move_type move = ''physical'' then attack (stats attacker)
      else specialAttack (stats attacker))"

definition defenseStat :: "BattlePokemon \<Rightarrow> BattleMove \<Rightarrow> jsnum" where
  \<comment> \<open>\<open>const defense\<close> of \<open>calculateDamage\<close>: the divisor of the damage formula\<close>
  "defenseStat defender move =
     (if move_type move = ''physical'' then defense (stats defender)
      else specialDefense (stats defender))"

definition randomFactor :: "rat \<Rightarrow> jsnum" where
  \<comment> \<open>\<open>0.85 + Math.random() * 0.15\<close>, for the value \<open>u\<close> drawn by \<open>Math.random()\<close>\<close>
  "randomFactor u = jadd (Fin (85/100)) (jmul (Fin u) (Fin (15/100)))"

definition calculateDamage :: "rat \<Rightarrow> BattlePokemon \<Rightarrow> BattlePokemon \<Rightarrow> BattleMove \<Rightarrow> jsnum" where
  \<comment> \<open>the first argument is the value \<open>Math.random()\<close> returns inside the function\<close>
  "calculateDamage u attacker defender move =
     (let attack = attackStat attacker move;
          defense = defenseStat defender move;
          level = level attacker;
          power = power move;
          damage = jfloor (jadd (jdiv (jdiv (jmul (jmul (jadd (jdiv (jmul (Fin 2) level) (Fin 5))
                      (Fin 2)) power) attack) defense) (Fin 50)) (Fin 2));
          typeEffectiveness =
            calculateTypeEffectiveness (move_type move) (map type_name (types defender));
          damage = jmul damage typeEffectiveness;
          damage = (if status_type (status attacker) = Burn \<and> move_type move = ''physical''
                    then jmul damage (Fin (1/2)) else damage);
          damage = jmul damage (randomFactor u)
      in jfloor damage)"

definition isMoveHit :: "rat \<Rightarrow> BattleMove \<Rightarrow> bool" where
  \<comment> \<open>\<open>Math.random() * 100 <= move.accuracy\<close>\<close>
  "isMoveHit u move = jle (jmul (Fin u) (Fin 100)) (accuracy move)"

section \<open>Turn resolution\<close>

definition applyWeatherEffects :: "BattleState \<Rightarrow> BattleState" where
  "applyWeatherEffects battleState =
     (if weather_type (weather battleState) = Sunny
      then battleState\<lparr>battleLog := battleLog battleState @ [''Sunny weather boosts Fire-type moves!'']\<rparr>
      else if weather_type (weather battleState) = Rainy
      then battleState\<lparr>battleLog := battleLog battleState @ [''Rainy weather boosts Water-type moves!'']\<rparr>
      else battleState)"

text \<open>
  \<open>applyStatusEffects\<close> runs the same block on the player's combatant and then on the
  opponent's. \<open>statusUpkeep\<close> is that block: it returns the combatant after the upkeep
  and the lines the block pushes to the battle log.
\<close>

definition statusUpkeep :: "BattlePokemon \<Rightarrow> BattlePokemon \<times> string list" where
  "statusUpkeep p =
     (if status_type (status p) \<noteq> StNone then
        (let (p1, log1) =
               (case status_type (status p) of
                  Burn \<Rightarrow>
                    (let burnDamage = jfloor (jmul (hp (stats p)) (Fin (1/10)))
                     in (p\<lparr>currentHp := jmax (Fin 0) (jsub (currentHp p) burnDamage)\<rparr>,
                         [pokemon_name p @ '' took burn damage!'']))
                | Poison \<Rightarrow>
                    (let poisonDamage = jfloor (jmul (hp (stats p)) (Fin (8/100)))
                     in (p\<lparr>currentHp := jmax (Fin 0) (jsub (currentHp p) poisonDamage)\<rparr>,
                         [pokemon_name p @ '' took poison damage!'']))
                | _ \<Rightarrow> (p, []));
             left = jsub (turnsLeft (status p)) (Fin 1)
         in if jle left (Fin 0)
            then (p1\<lparr>status := \<lparr>status_type = StNone, turnsLeft = Fin 0\<rparr>\<rparr>,
                  log1 @ [pokemon_name p @ [CHR 0x27] @ ''s status returned to normal!''])
            else (p1\<lparr>status := (status p)\<lparr>turnsLeft := left\<rparr>\<rparr>, log1))
      else (p, []))"

definition applyStatusEffects :: "BattleState \<Rightarrow> BattleState" where
  "applyStatusEffects battleState =
     (let (pl, plLog) = statusUpkeep (playerPokemon battleState);
          (op, opLog) = statusUpkeep (opponentPokemon battleState)
      in battleState\<lparr>playerPokemon := pl, opponentPokemon := op,
                      battleLog := battleLog battleState @ plLog @ opLog\<rparr>)"

record Draws =
  opponentMoveDraw :: rat
  playerHitDraw :: rat
  playerDamageDraw :: rat
  opponentHitDraw :: rat
  opponentDamageDraw :: rat
  reportedMoveDraw :: rat

text \<open>
  A \<open>Draws\<close> value holds what each call of \<open>Math.random()\<close> returns during one
  \<open>make_move\<close>: the opponent's move choice, the two accuracy tests and the two random
  factors of \<open>executeBattleTurn\<close>, and the second move choice the handler makes for its
  text. A draw the code does not make is not read.

  The turn mutates the encounter in place, so an exception leaves the mutations made
  before it: \<open>Thrown\<close> carries the encounter as it is when the exception is raised.
\<close>

datatype turn_result = Returned BattleState | Thrown error BattleState

definition randomMove :: "rat \<Rightarrow> BattleMove list \<Rightarrow> BattleMove option" where
  \<comment> \<open>\<open>moves[Math.floor(Math.random() * moves.length)]\<close>\<close>
  "randomMove u ms = jsIndex ms (jfloor (jmul (Fin u) (Fin (of_nat (length ms)))))"

definition playerAttack :: "rat \<Rightarrow> rat \<Rightarrow> BattleMove \<Rightarrow> BattleState \<Rightarrow> BattleState" where
  \<comment> \<open>the block "Player's turn"\<close>
  "playerAttack uHit uDmg playerMove state =
     (if isMoveHit uHit playerMove then
        (let damage = calculateDamage uDmg (playerPokemon state) (opponentPokemon state) playerMove
         in state\<lparr>opponentPokemon := (opponentPokemon state)
                      \<lparr>currentHp := jmax (Fin 0) (jsub (currentHp (opponentPokemon state)) damage)\<rparr>,
                   battleLog := battleLog state @
                      [pokemon_name (playerPokemon state) @ '' used '' @ move_name playerMove @ ''!'',
                       pokemon_name (opponentPokemon state) @ '' took '' @ numToString damage @ '' damage!'']\<rparr>)
      else state\<lparr>battleLog := battleLog state @
                      [pokemon_name (playerPokemon state) @ [CHR 0x27] @ ''s move missed!'']\<rparr>)"

definition opponentAttack :: "rat \<Rightarrow> rat \<Rightarrow> BattleMove option \<Rightarrow> BattleState \<Rightarrow> turn_result" where
  \<comment> \<open>the block "Opponent's turn (if still alive)"; \<open>isMoveHit\<close> is reached only when the
      opponent's hit points are positive, and reads \<open>accuracy\<close> of an \<open>undefined\<close> move\<close>
  "opponentAttack uHit uDmg opponentMove state =
     (if jlt (Fin 0) (currentHp (opponentPokemon state)) then
        (case opponentMove of
           None \<Rightarrow> Thrown TypeError state
         | Some om \<Rightarrow>
             if isMoveHit uHit om then
               (let damage = calculateDamage uDmg (opponentPokemon state) (playerPokemon state) om
                in Returned (state\<lparr>playerPokemon := (playerPokemon state)
                      \<lparr>currentHp := jmax (Fin 0) (jsub (currentHp (playerPokemon state)) damage)\<rparr>,
                   battleLog := battleLog state @
                      [pokemon_name (opponentPokemon state) @ '' used '' @ move_name om @ ''!'',
                       pokemon_name (playerPokemon state) @ '' took '' @ numToString damage @ '' damage!'']\<rparr>))
             else if jlt (Fin 0) (currentHp (opponentPokemon state)) then
               Returned (state\<lparr>battleLog := battleLog state @
                      [pokemon_name (opponentPokemon state) @ [CHR 0x27] @ ''s move missed!'']\<rparr>)
             else Returned state)
      else Returned state)"

definition executeBattleTurn :: "Draws \<Rightarrow> BattleState \<Rightarrow> jsnum \<Rightarrow> turn_result" where
  "executeBattleTurn rnd state playerMoveIndex =
     (let s1 = applyStatusEffects (applyWeatherEffects (state\<lparr>battleLog := []\<rparr>));
          playerMove = jsIndex (moves (playerPokemon s1)) playerMoveIndex;
          opponentMove = randomMove (opponentMoveDraw rnd) (moves (opponentPokemon s1))
      in case playerMove of
           None \<Rightarrow> Thrown TypeError s1
         | Some pm \<Rightarrow>
             (case opponentAttack (opponentHitDraw rnd) (opponentDamageDraw rnd) opponentMove
                     (playerAttack (playerHitDraw rnd) (playerDamageDraw rnd) pm s1) of
                Thrown e s \<Rightarrow> Thrown e s
              | Returned s \<Rightarrow> Returned (s\<lparr>turn := jadd (turn s) (Fin 1)\<rparr>)))"

section \<open>Hydration from the catalog\<close>

text \<open>
  The catalog is outside the program. \<open>fetchFromPokeAPI\<close> catches every failure of a
  request and returns \<open>null\<close>, so a request has a payload or none. A \<open>catalog\<close> says
  what the \<open>n\<close>-th request of the process returns for the creature identifier asked
  about; the functions below thread the number of requests made so far. The payload is
  read with the shape the code expects of it: a move entry may lack its \<open>type\<close> object,
  and the statistics array may be shorter than six entries; reading through either raises
  a \<open>TypeError\<close>.
\<close>

record ApiMove =
  api_move_name :: string
  api_power :: "jsnum option"
  api_accuracy :: "jsnum option"
  api_move_type :: "string option"
  api_pp :: "jsnum option"

record ApiPokemon =
  api_id :: jsnum
  api_name :: string
  api_types :: "PokemonType list"
  api_moves :: "ApiMove list"
  api_stats :: "jsnum list"

type_synonym catalog = "nat \<Rightarrow> jsnum \<Rightarrow> ApiPokemon option"

definition toBattleMove :: "ApiMove \<Rightarrow> BattleMove option" where
  \<comment> \<open>the arrow function mapped over the move entries; \<open>None\<close> when \<open>move.move.type.name\<close>
      reads through a missing \<open>type\<close>\<close>
  "toBattleMove m =
     (case api_move_type m of
        None \<Rightarrow> None
      | Some t \<Rightarrow>
          Some \<lparr>move_name = api_move_name m,
                power = orDefault (api_power m) (Fin 0),
                accuracy = orDefault (api_accuracy m) (Fin 100),
                move_type = t,
                pp = orDefault (api_pp m) (Fin 20)\<rparr>)"

definition getPokemonMoves :: "catalog \<Rightarrow> nat \<Rightarrow> jsnum \<Rightarrow> (error + BattleMove list) \<times> nat" where
  "getPokemonMoves c n pokemonId =
     (case c n pokemonId of
        None \<Rightarrow> (Inr [], Suc n)
      | Some p \<Rightarrow>
          (case those (map toBattleMove (take 4 (api_moves p))) of
             None \<Rightarrow> (Inl TypeError, Suc n)
           | Some ms \<Rightarrow> (Inr ms, Suc n)))"

definition zeroStats :: BattleStats where
  "zeroStats = \<lparr>hp = Fin 0, attack = Fin 0, defense = Fin 0,
                specialAttack = Fin 0, specialDefense = Fin 0, speed = Fin 0\<rparr>"

definition getPokemonStats :: "catalog \<Rightarrow> nat \<Rightarrow> jsnum \<Rightarrow> (error + BattleStats) \<times> nat" where
  "getPokemonStats c n pokemonId =
     (case c n pokemonId of
        None \<Rightarrow> (Inr zeroStats, Suc n)
      | Some p \<Rightarrow>
          (case api_stats p of
             h # a # d # sa # sd # sp # _ \<Rightarrow>
               (Inr \<lparr>hp = h, attack = a, defense = d,
                     specialAttack = sa, specialDefense = sd, speed = sp\<rparr>, Suc n)
           | _ \<Rightarrow> (Inl TypeError, Suc n)))"

definition createBattlePokemon :: "catalog \<Rightarrow> nat \<Rightarrow> jsnum \<Rightarrow> jsnum \<Rightarrow> BattlePokemon option \<times> nat" where
  \<comment> \<open>\<open>None\<close> is \<open>null\<close>: the first request failed, or the \<open>catch\<close> took an exception\<close>
  "createBattlePokemon c n pokemonId lvl =
     (case c n pokemonId of
        None \<Rightarrow> (None, Suc n)
      | Some pokemon \<Rightarrow>
          (case getPokemonMoves c (Suc n) pokemonId of
             (Inl e, n1) \<Rightarrow> (None, n1)
           | (Inr ms, n1) \<Rightarrow>
               (case getPokemonStats c n1 pokemonId of
                  (Inl e, n2) \<Rightarrow> (None, n2)
                | (Inr st, n2) \<Rightarrow>
                    (Some \<lparr>pokemon_id = api_id pokemon,
                           pokemon_name = api_name pokemon,
                           level = lvl,
                           types = api_types pokemon,
                           stats = st,
                           moves = ms,
                           currentHp = hp st,
                           status = \<lparr>status_type = StNone, turnsLeft = Fin 0\<rparr>,
                           statModifiers = \<lparr>mod_attack = Fin 0, mod_defense = Fin 0,
                              mod_specialAttack = Fin 0, mod_specialDefense = Fin 0,
                              mod_speed = Fin 0\<rparr>,
                           experience = Fin 0,
                           items = []\<rparr>, n2))))"

definition hydrationMessage :: string where
  \<comment> \<open>the message of the \<open>Error\<close> thrown, its accented \<open>e\<close> as the two bytes of UTF-8\<close>
  "hydrationMessage = ''Failed to create battle Pok'' @ [CHR 0xC3, CHR 0xA9] @ ''mon''"

definition startBattle :: "catalog \<Rightarrow> nat \<Rightarrow> jsnum \<Rightarrow> jsnum \<Rightarrow> (string + BattleState) \<times> nat" where
  \<comment> \<open>both combatants are created, at the default level 50, before either is tested;
      \<open>Inl msg\<close> is \<open>throw new Error(msg)\<close>\<close>
  "startBattle c n playerPokemonId opponentPokemonId =
     (let (playerPokemon, n1) = createBattlePokemon c n playerPokemonId (Fin 50);
          (opponentPokemon, n2) = createBattlePokemon c n1 opponentPokemonId (Fin 50)
      in case (playerPokemon, opponentPokemon) of
           (Some pl, Some op) \<Rightarrow>
             (Inr \<lparr>playerPokemon = pl, opponentPokemon = op, turn = Fin 1,
                   weather = \<lparr>weather_type = WNone, weather_turnsLeft = Fin 0\<rparr>,
                   battle_status = ''active'', battleLog = []\<rparr>, n2)
         | _ \<Rightarrow> (Inl hydrationMessage, n2))"

section \<open>Tool handlers\<close>

text \<open>
  The process holds one encounter, \<open>currentBattle\<close>, \<open>None\<close> for \<open>null\<close>. A handler
  returns its response and the state of the process after it. A response is the text of
  the content it returns, or the exception that leaves the handler. In \<open>make_move\<close>
  the string the source builds in its local \<open>battleLog\<close> is called \<open>logText\<close>, to
  keep it apart from the encounter's field of that name.
\<close>

record ServerState =
  currentBattle :: "BattleState option"
  requests :: nat

datatype response = Text string | Raised error

definition hpLine :: "BattlePokemon \<Rightarrow> string" where
  \<comment> \<open>\<open>`${name} HP: ${currentHp}/${stats.hp}`\<close>\<close>
  "hpLine p = pokemon_name p @ '' HP: '' @ numToString (currentHp p) @ ''/'' @ numToString (hp (stats p))"

definition moveList :: "BattleMove list \<Rightarrow> string" where
  \<comment> \<open>\<open>moves.map((move, index) => `${index}: ${move.name}`).join('\n')\<close>\<close>
  "moveList ms =
     joinWith ''\<newline>'' (map (\<lambda>(index, move). showNat index @ '': '' @ move_name move)
                               (enumerate 0 ms))"

definition start_battle :: "catalog \<Rightarrow> jsnum \<Rightarrow> jsnum \<Rightarrow> ServerState \<Rightarrow> response \<times> ServerState" where
  "start_battle c playerPokemonId opponentPokemonId srv =
     (case startBattle c (requests srv) playerPokemonId opponentPokemonId of
        (Inr battleState, n) \<Rightarrow>
          (Text (''Battle started!\<newline>'' @ pokemon_name (playerPokemon battleState) @ '' vs ''
                 @ pokemon_name (opponentPokemon battleState) @ ''\<newline>\<newline>''
                 @ hpLine (playerPokemon battleState) @ ''\<newline>''
                 @ hpLine (opponentPokemon battleState) @ ''\<newline>\<newline>Available moves:\<newline>''
                 @ moveList (moves (playerPokemon battleState))),
           \<lparr>currentBattle = Some battleState, requests = n\<rparr>)
      | (Inl message, n) \<Rightarrow>
          (Text (''Failed to start battle: ''
                 @ (if message \<noteq> [] then message else ''Unknown error occurred'')),
           srv\<lparr>requests := n\<rparr>))"

definition noBattleMessage :: string where
  "noBattleMessage = ''No active battle! Start a battle first using the start_battle command.''"

definition make_move :: "Draws \<Rightarrow> jsnum \<Rightarrow> ServerState \<Rightarrow> response \<times> ServerState" where
  "make_move rnd moveIndex srv =
     (case currentBattle srv of
        None \<Rightarrow> (Text noBattleMessage, srv)
      | Some cb \<Rightarrow>
          (case executeBattleTurn rnd cb moveIndex of
             Thrown e s \<Rightarrow> (Raised e, srv\<lparr>currentBattle := Some s\<rparr>)
           | Returned battleState \<Rightarrow>
               (case (jsIndex (moves (playerPokemon battleState)) moveIndex,
                      randomMove (reportedMoveDraw rnd) (moves (opponentPokemon battleState))) of
                  (Some playerMove, Some opponentMove) \<Rightarrow>
                    (let logText =
                           ''Turn '' @ numToString (turn battleState) @ '':\<newline>''
                           @ pokemon_name (playerPokemon battleState) @ '' used ''
                           @ move_name playerMove @ ''!\<newline>''
                           @ pokemon_name (opponentPokemon battleState) @ '' used ''
                           @ move_name opponentMove @ ''!\<newline>\<newline>''
                           @ hpLine (playerPokemon battleState) @ ''\<newline>''
                           @ hpLine (opponentPokemon battleState) @ ''\<newline>''
                     in if jle (currentHp (playerPokemon battleState)) (Fin 0)
                           \<or> jle (currentHp (opponentPokemon battleState)) (Fin 0)
                        then
                          (let winner = (if jle (currentHp (playerPokemon battleState)) (Fin 0)
                                         then pokemon_name (opponentPokemon battleState)
                                         else pokemon_name (playerPokemon battleState))
                           in (Text (logText @ ''\<newline>Battle ended! '' @ winner @ '' won!''),
                               srv\<lparr>currentBattle := None\<rparr>))
                        else (Text logText, srv\<lparr>currentBattle := Some battleState\<rparr>))
                | _ \<Rightarrow> (Raised TypeError, srv\<lparr>currentBattle := Some battleState\<rparr>))))"

definition use_item :: "jsnum \<Rightarrow> ServerState \<Rightarrow> response \<times> ServerState" where
  "use_item itemIndex srv =
     (case currentBattle srv of
        None \<Rightarrow> (Text noBattleMessage, srv)
      | Some cb \<Rightarrow>
          (case jsIndex (items (playerPokemon cb)) itemIndex of
             None \<Rightarrow> (Text ''Invalid item index!'', srv)
           | Some item \<Rightarrow>
               (let cb1 = (case heal (effect item) of
                             None \<Rightarrow> cb
                           | Some h \<Rightarrow>
                               if truthy h then
                                 cb\<lparr>playerPokemon := (playerPokemon cb)
                                       \<lparr>currentHp := jmin (hp (stats (playerPokemon cb)))
                                                       (jadd (currentHp (playerPokemon cb)) h)\<rparr>,
                                    battleLog := battleLog cb @
                                       [pokemon_name (playerPokemon cb) @ '' recovered ''
                                        @ numToString h @ '' HP!'']\<rparr>
                               else cb);
                    k = (case itemIndex of Fin q \<Rightarrow> nat \<lfloor>q\<rfloor> | _ \<Rightarrow> 0);
                    cb2 = cb1\<lparr>playerPokemon := (playerPokemon cb1)
                               \<lparr>items := take k (items (playerPokemon cb1))
                                          @ drop (Suc k) (items (playerPokemon cb1))\<rparr>\<rparr>
                in (Text (joinWith ''\<newline>'' (battleLog cb2)), srv\<lparr>currentBattle := Some cb2\<rparr>))))"

section \<open>Properties of the encounter\<close>

definition hpInRange :: "BattlePokemon \<Rightarrow> bool" where
  \<comment> \<open>\<open>0 <= currentHp && currentHp <= stats.hp\<close>\<close>
  "hpInRange p = (jle (Fin 0) (currentHp p) \<and> jle (currentHp p) (hp (stats p)))"

definition isFinite :: "jsnum \<Rightarrow> bool" where
  \<comment> \<open>\<open>Number.isFinite\<close>\<close>
  "isFinite x = (\<exists>q. x = Fin q)"

fun resultState :: "turn_result \<Rightarrow> BattleState" where
  \<comment> \<open>the encounter a turn leaves behind, whether it returns or throws\<close>
  "resultState (Returned s) = s"
| "resultState (Thrown e s) = s"

section \<open>The damage formula as the specification words it\<close>

text \<open>
  The specification gives the damage as a formula over numbers, with the effectiveness a
  product over the defender's tags and the burn penalty a factor. \<open>spec_damage\<close> is
  that formula over the rationals; \<open>spec_damage_js\<close> is the same sequence of operations
  over JavaScript numbers, for statements that must also cover a zero divisor.
\<close>

definition chartValue :: "string \<Rightarrow> string \<Rightarrow> rat" where
  \<comment> \<open>\<open>chart[moveAffinity][tag]\<close>, an entry absent from the chart counting as 1\<close>
  "chartValue moveAffinity tag =
     (case chartEntry moveAffinity tag of Some (Fin q) \<Rightarrow> q | _ \<Rightarrow> 1)"

definition spec_effectiveness :: "string \<Rightarrow> string list \<Rightarrow> rat" where
  "spec_effectiveness moveAffinity tags = prod_list (map (chartValue moveAffinity) tags)"

definition spec_burnFactor :: "BattlePokemon \<Rightarrow> BattleMove \<Rightarrow> rat" where
  "spec_burnFactor attacker move =
     (if status_type (status attacker) = Burn \<and> move_type move = ''physical'' then 1/2 else 1)"

definition spec_damage :: "rat \<Rightarrow> rat \<Rightarrow> rat \<Rightarrow> rat \<Rightarrow> rat \<Rightarrow> rat \<Rightarrow> rat \<Rightarrow> int" where
  "spec_damage lvl movePower attackValue defenseValue effectiveness burnFactor r =
     \<lfloor>of_int \<lfloor>((2 * lvl / 5 + 2) * movePower * attackValue / defenseValue) / 50 + 2\<rfloor>
        * effectiveness * burnFactor * r\<rfloor>"

definition spec_damage_js :: "jsnum \<Rightarrow> jsnum \<Rightarrow> jsnum \<Rightarrow> jsnum \<Rightarrow> jsnum \<Rightarrow> jsnum \<Rightarrow> jsnum \<Rightarrow> jsnum" where
  "spec_damage_js lvl movePower attackValue defenseValue effectiveness burnFactor r =
     jfloor (jmul (jmul (jmul
       (jfloor (jadd (jdiv (jdiv (jmul (jmul (jadd (jdiv (jmul (Fin 2) lvl) (Fin 5)) (Fin 2))
                  movePower) attackValue) defenseValue) (Fin 50)) (Fin 2)))
       effectiveness) burnFactor) r)"

section \<open>Sample catalog entries and encounters\<close>

definition bulbasaur :: ApiPokemon where
  "bulbasaur =
     \<lparr>api_id = Fin 1, api_name = ''bulbasaur'',
      api_types = [\<lparr>type_name = ''grass''\<rparr>, \<lparr>type_name = ''poison''\<rparr>],
      api_moves =
        [\<lparr>api_move_name = ''tackle'', api_power = Some (Fin 40), api_accuracy = Some (Fin 100),
          api_move_type = Some ''normal'', api_pp = Some (Fin 35)\<rparr>,
         \<lparr>api_move_name = ''growl'', api_power = None, api_accuracy = Some (Fin 100),
          api_move_type = Some ''normal'', api_pp = Some (Fin 40)\<rparr>],
      api_stats = [Fin 45, Fin 49, Fin 49, Fin 65, Fin 65, Fin 45]\<rparr>"

definition charmander :: ApiPokemon where
  "charmander =
     \<lparr>api_id = Fin 4, api_name = ''charmander'',
      api_types = [\<lparr>type_name = ''fire''\<rparr>],
      api_moves =
        [\<lparr>api_move_name = ''scratch'', api_power = Some (Fin 40), api_accuracy = Some (Fin 100),
          api_move_type = Some ''normal'', api_pp = Some (Fin 35)\<rparr>,
         \<lparr>api_move_name = ''ember'', api_power = Some (Fin 40), api_accuracy = Some (Fin 100),
          api_move_type = Some ''fire'', api_pp = Some (Fin 25)\<rparr>],
      api_stats = [Fin 39, Fin 52, Fin 43, Fin 60, Fin 50, Fin 65]\<rparr>"

definition catalogOk :: catalog where
  \<comment> \<open>every request about creature 1 or 4 is answered, any other identifier is unknown\<close>
  "catalogOk n pokemonId =
     (if pokemonId = Fin 1 then Some bulbasaur
      else if pokemonId = Fin 4 then Some charmander
      else None)"

definition catalogStatsDown :: catalog where
  \<comment> \<open>as \<open>catalogOk\<close>, but the sixth request of the process (number 5) fails\<close>
  "catalogStatsDown n pokemonId = (if n = 5 then None else catalogOk n pokemonId)"

definition freshServer :: ServerState where
  "freshServer = \<lparr>currentBattle = None, requests = 0\<rparr>"

definition sampleDraws :: Draws where
  \<comment> \<open>every accuracy test passes, the random factors are 0.85, the opponent's move for the
      turn is its first, the move drawn for the text is its second\<close>
  "sampleDraws =
     \<lparr>opponentMoveDraw = 0, playerHitDraw = 0, playerDamageDraw = 0,
      opponentHitDraw = 0, opponentDamageDraw = 0, reportedMoveDraw = 1/2\<rparr>"

definition tackle :: BattleMove where
  "tackle = \<lparr>move_name = ''tackle'', power = Fin 40, accuracy = Fin 100,
             move_type = ''normal'', pp = Fin 35\<rparr>"

definition growl :: BattleMove where
  "growl = \<lparr>move_name = ''growl'', power = Fin 0, accuracy = Fin 100,
            move_type = ''normal'', pp = Fin 40\<rparr>"

definition scratch :: BattleMove where
  "scratch = \<lparr>move_name = ''scratch'', power = Fin 40, accuracy = Fin 100,
              move_type = ''normal'', pp = Fin 35\<rparr>"

definition ember :: BattleMove where
  "ember = \<lparr>move_name = ''ember'', power = Fin 40, accuracy = Fin 100,
            move_type = ''fire'', pp = Fin 25\<rparr>"

definition slam :: BattleMove where
  \<comment> \<open>a move whose \<open>type\<close> field holds the category word\<close>
  "slam = \<lparr>move_name = ''slam'', power = Fin 80, accuracy = Fin 75,
           move_type = ''physical'', pp = Fin 20\<rparr>"

definition psybeam :: BattleMove where
  "psybeam = \<lparr>move_name = ''psybeam'', power = Fin 65, accuracy = Fin 100,
              move_type = ''special'', pp = Fin 20\<rparr>"

definition noStatus :: PokemonStatus where
  "noStatus = \<lparr>status_type = StNone, turnsLeft = Fin 0\<rparr>"

definition noModifiers :: StatModifiers where
  "noModifiers = \<lparr>mod_attack = Fin 0, mod_defense = Fin 0, mod_specialAttack = Fin 0,
                  mod_specialDefense = Fin 0, mod_speed = Fin 0\<rparr>"

definition playerBulbasaur :: BattlePokemon where
  "playerBulbasaur =
     \<lparr>pokemon_id = Fin 1, pokemon_name = ''bulbasaur'', level = Fin 50,
      types = [\<lparr>type_name = ''grass''\<rparr>, \<lparr>type_name = ''poison''\<rparr>],
      stats = \<lparr>hp = Fin 45, attack = Fin 49, defense = Fin 49,
               specialAttack = Fin 65, specialDefense = Fin 65, speed = Fin 45\<rparr>,
      moves = [tackle, growl], currentHp = Fin 45, status = noStatus,
      statModifiers = noModifiers, experience = Fin 0, items = []\<rparr>"

definition opponentCharmander :: BattlePokemon where
  "opponentCharmander =
     \<lparr>pokemon_id = Fin 4, pokemon_name = ''charmander'', level = Fin 50,
      types = [\<lparr>type_name = ''fire''\<rparr>],
      stats = \<lparr>hp = Fin 39, attack = Fin 52, defense = Fin 43,
               specialAttack = Fin 60, specialDefense = Fin 50, speed = Fin 65\<rparr>,
      moves = [scratch, ember], currentHp = Fin 39, status = noStatus,
      statModifiers = noModifiers, experience = Fin 0, items = []\<rparr>"

definition zeroCharmander :: BattlePokemon where
  \<comment> \<open>the opponent as hydrated when its statistics request fails\<close>
  "zeroCharmander = opponentCharmander\<lparr>stats := zeroStats, currentHp := Fin 0\<rparr>"

definition sampleEncounter :: BattleState where
  "sampleEncounter =
     \<lparr>playerPokemon = playerBulbasaur, opponentPokemon = opponentCharmander, turn = Fin 1,
      weather = \<lparr>weather_type = WNone, weather_turnsLeft = Fin 0\<rparr>,
      battle_status = ''active'', battleLog = []\<rparr>"

definition zeroStatsEncounter :: BattleState where
  "zeroStatsEncounter = sampleEncounter\<lparr>opponentPokemon := zeroCharmander\<rparr>"

definition burnedEncounter :: BattleState where
  \<comment> \<open>both combatants alive; the player is burned and has 3 hit points left, the opponent 1\<close>
  "burnedEncounter =
     sampleEncounter
       \<lparr>playerPokemon := playerBulbasaur
           \<lparr>currentHp := Fin 3, status := \<lparr>status_type = Burn, turnsLeft = Fin 2\<rparr>\<rparr>,
        opponentPokemon := opponentCharmander\<lparr>currentHp := Fin 1\<rparr>\<rparr>"

definition sampleServer :: ServerState where
  "sampleServer = \<lparr>currentBattle = Some sampleEncounter, requests = 6\<rparr>"

definition zeroStatsServer :: ServerState where
  "zeroStatsServer = \<lparr>currentBattle = Some zeroStatsEncounter, requests = 6\<rparr>"

definition firstTurnLog :: "string list" where
  "firstTurnLog = [''bulbasaur used tackle!'', ''charmander took 20 damage!'',
                   ''charmander used scratch!'', ''bulbasaur took 15 damage!'']"

definition afterFirstTurn :: BattleState where
  "afterFirstTurn =
     sampleEncounter
       \<lparr>playerPokemon := playerBulbasaur\<lparr>currentHp := Fin 30\<rparr>,
        opponentPokemon := opponentCharmander\<lparr>currentHp := Fin 19\<rparr>,
        turn := Fin 2, battleLog := firstTurnLog\<rparr>"

section \<open>Handlers without an encounter, and failed hydration\<close>

text \<open>
  Claim C7. A \<open>make_move\<close> call made while no encounter is stored returns the
  "no active battle" message, whatever the move index and the random draws, and leaves
  the state of the process as it was.
\<close>

theorem make_move_no_battle:
  "make_move rnd moveIndex (srv\<lparr>currentBattle := None\<rparr>)
     = (Text noBattleMessage, srv\<lparr>currentBattle := None\<rparr>)"
  by (simp add: make_move_def)

lemma createBattlePokemon_unavailable:
  "c n pokemonId = None \<Longrightarrow> createBattlePokemon c n pokemonId lvl = (None, Suc n)"
  by (simp add: createBattlePokemon_def)

lemma startBattle_failure:
  assumes "fst (createBattlePokemon c n playerId (Fin 50)) = None
         \<or> fst (createBattlePokemon c (snd (createBattlePokemon c n playerId (Fin 50)))
                  opponentId (Fin 50)) = None"
  shows "fst (startBattle c n playerId opponentId) = Inl hydrationMessage"
  using assms
  by (auto simp: startBattle_def split: prod.splits option.splits)

text \<open>
  Claim C5. If the hydration of the player's or of the opponent's combatant fails
  (\<open>createBattlePokemon\<close> returns \<open>null\<close>, as it does when the catalog lookup is
  unavailable), \<open>start_battle\<close> returns the hydration-failure message and the stored
  encounter, if there was one, is the same as before: no new encounter is stored.
\<close>

theorem start_battle_hydration_failure:
  assumes "fst (createBattlePokemon c (requests srv) playerId (Fin 50)) = None
         \<or> fst (createBattlePokemon c (snd (createBattlePokemon c (requests srv) playerId (Fin 50)))
                  opponentId (Fin 50)) = None"
  shows "fst (start_battle c playerId opponentId srv)
           = Text (''Failed to start battle: '' @ hydrationMessage)
       \<and> currentBattle (snd (start_battle c playerId opponentId srv)) = currentBattle srv"
proof -
  obtain r n where r: "startBattle c (requests srv) playerId opponentId = (r, n)"
    by (cases "startBattle c (requests srv) playerId opponentId")
  with startBattle_failure [OF assms] have "r = Inl hydrationMessage"
    by simp
  with r show ?thesis
    by (simp add: start_battle_def) (simp add: hydrationMessage_def)
qed

text \<open>
  The witness: an encounter is stored, the player's creature hydrates and the lookup
  for the opponent's identifier 9999 is unavailable.
\<close>

theorem start_battle_hydration_failure_witness:
  "fst (createBattlePokemon catalogOk (requests (freshServer\<lparr>currentBattle := Some sampleEncounter\<rparr>))
          (Fin 1) (Fin 50)) \<noteq> None
   \<and> catalogOk 3 (Fin 9999) = None
   \<and> fst (start_battle catalogOk (Fin 1) (Fin 9999) (freshServer\<lparr>currentBattle := Some sampleEncounter\<rparr>))
       = Text (''Failed to start battle: '' @ hydrationMessage)
   \<and> currentBattle (snd (start_battle catalogOk (Fin 1) (Fin 9999)
          (freshServer\<lparr>currentBattle := Some sampleEncounter\<rparr>))) = Some sampleEncounter"
proof -
  have a: "createBattlePokemon catalogOk 0 (Fin 1) (Fin 50) = (Some playerBulbasaur, 3)"
    by code_simp
  have b: "catalogOk 3 (Fin 9999) = None"
    by (simp add: catalogOk_def)
  have c: "fst (createBattlePokemon catalogOk 3 (Fin 9999) (Fin 50)) = None"
    using createBattlePokemon_unavailable [of catalogOk 3 "Fin 9999" "Fin 50"] b by simp
  show ?thesis
    using a b c
      start_battle_hydration_failure
        [of catalogOk "freshServer\<lparr>currentBattle := Some sampleEncounter\<rparr>" "Fin 1" "Fin 9999"]
    by (simp add: freshServer_def)
qed

section \<open>The turn counter\<close>

lemma statusUpkeep_moves [simp]: "moves (fst (statusUpkeep p)) = moves p"
  by (simp add: statusUpkeep_def Let_def split: StatusType.splits)

lemma applyWeatherEffects_sel [simp]:
  "playerPokemon (applyWeatherEffects s) = playerPokemon s"
  "opponentPokemon (applyWeatherEffects s) = opponentPokemon s"
  "turn (applyWeatherEffects s) = turn s"
  by (simp_all add: applyWeatherEffects_def)

lemma applyStatusEffects_sel [simp]:
  "playerPokemon (applyStatusEffects s) = fst (statusUpkeep (playerPokemon s))"
  "opponentPokemon (applyStatusEffects s) = fst (statusUpkeep (opponentPokemon s))"
  "turn (applyStatusEffects s) = turn s"
  by (simp_all add: applyStatusEffects_def split: prod.splits)

lemma playerAttack_sel [simp]:
  "playerPokemon (playerAttack uh ud pm s) = playerPokemon s"
  "turn (playerAttack uh ud pm s) = turn s"
  "moves (opponentPokemon (playerAttack uh ud pm s)) = moves (opponentPokemon s)"
  by (simp_all add: playerAttack_def Let_def)

lemma opponentAttack_turn [simp]:
  "turn (resultState (opponentAttack uh ud om s)) = turn s"
  by (simp add: opponentAttack_def Let_def split: option.splits)

lemma opponentAttack_Returned:
  "om \<noteq> None \<Longrightarrow> \<exists>s'. opponentAttack uh ud om s = Returned s'"
  by (auto simp: opponentAttack_def Let_def split: option.splits)

lemma randomMove_Some:
  assumes "ms \<noteq> []" "0 \<le> u" "u < 1"
  shows "\<exists>m. randomMove u ms = Some m"
proof -
  let ?n = "of_nat (length ms) :: rat"
  have n: "0 < ?n" using assms(1) by simp
  have lo: "0 \<le> u * ?n" using assms(2) by simp
  have hi: "u * ?n < ?n" using assms(3) n by simp
  have f0: "0 \<le> \<lfloor>u * ?n\<rfloor>" using lo by simp
  have "\<lfloor>u * ?n\<rfloor> < int (length ms)"
    using hi by (simp add: floor_less_iff)
  then have f1: "nat \<lfloor>u * ?n\<rfloor> < length ms" using f0 by linarith
  show ?thesis
    using f0 f1 by (simp add: randomMove_def jsIndex_def)
qed

lemma executeBattleTurn_turn:
  "(case executeBattleTurn rnd s i of
      Returned s' \<Rightarrow> turn s' = jadd (turn s) (Fin 1)
    | Thrown e s' \<Rightarrow> turn s' = turn s)"
proof -
  define s1 where "s1 = applyStatusEffects (applyWeatherEffects (s\<lparr>battleLog := []\<rparr>))"
  have t1: "turn s1 = turn s" by (simp add: s1_def)
  show ?thesis
  proof (cases "jsIndex (moves (playerPokemon s1)) i")
    case None
    then show ?thesis using t1 by (simp add: executeBattleTurn_def Let_def s1_def [symmetric])
  next
    case (Some pm)
    let ?r = "opponentAttack (opponentHitDraw rnd) (opponentDamageDraw rnd)
        (randomMove (opponentMoveDraw rnd) (moves (opponentPokemon s1)))
        (playerAttack (playerHitDraw rnd) (playerDamageDraw rnd) pm s1)"
    have "turn (resultState ?r) = turn s"
      using t1 by simp
    then show ?thesis using Some
      by (cases ?r) (simp_all add: executeBattleTurn_def Let_def s1_def [symmetric])
  qed
qed

lemma use_item_turn:
  assumes "currentBattle srv = Some cb"
      and "currentBattle (snd (use_item itemIndex srv)) = Some cb'"
  shows "turn cb' = turn cb"
  using assms
  by (auto simp: use_item_def Let_def split: option.splits if_splits)




section \<open>Hydration with a failed statistics request\<close>

lemma isFinite_simps [simp]:
  "isFinite (Fin q)" "\<not> isFinite PInf" "\<not> isFinite NInf" "\<not> isFinite NaN"
  by (simp_all add: isFinite_def)

lemma jdiv_zero: "\<not> isFinite (jdiv x (Fin 0))"
  by (cases x) (simp_all add: infsgn_def)

lemma jdiv_nonfinite: "\<not> isFinite x \<Longrightarrow> \<not> isFinite (jdiv x (Fin 50))"
  by (cases x) simp_all

lemma jadd_nonfinite: "\<not> isFinite x \<Longrightarrow> \<not> isFinite (jadd x (Fin b))"
  by (cases x) simp_all

lemma jfloor_nonfinite: "\<not> isFinite x \<Longrightarrow> \<not> isFinite (jfloor x)"
  by (cases x) simp_all

lemma jmul_nonfinite: "\<not> isFinite x \<Longrightarrow> \<not> isFinite (jmul x y)"
  by (cases x; cases y) (simp_all add: infsgn_def)

lemma calculateDamage_zero_defense:
  assumes "defenseStat defender move = Fin 0"
  shows "\<not> isFinite (calculateDamage u attacker defender move)"
  unfolding calculateDamage_def Let_def assms
  by (intro jfloor_nonfinite jmul_nonfinite jadd_nonfinite jdiv_nonfinite jdiv_zero)
     (auto intro!: jfloor_nonfinite jmul_nonfinite jadd_nonfinite jdiv_nonfinite jdiv_zero)

lemma getPokemonMoves_count: "snd (getPokemonMoves c n pokemonId) = Suc n"
  by (simp add: getPokemonMoves_def split: option.splits)




section \<open>The damage computation\<close>

lemma jmul_one [simp]: "jmul x (Fin 1) = x"
  by (cases x) (simp_all add: infsgn_def)

text \<open>
  Claim C2. \<open>calculateDamage\<close> computes with the attacker's \<open>attack\<close> and the
  defender's \<open>defense\<close> when the move is physical, and with \<open>specialAttack\<close> and
  \<open>specialDefense\<close> when it is special: in each case its result is the damage formula
  applied to that pair. The category is what the code reads it from, the move's
  \<open>type\<close> field.
\<close>

theorem calculateDamage_stat_pair:
  "(move_type move = ''physical'' \<longrightarrow>
      calculateDamage u attacker defender move =
        spec_damage_js (level attacker) (power move)
          (attack (stats attacker)) (defense (stats defender))
          (calculateTypeEffectiveness (move_type move) (map type_name (types defender)))
          (Fin (spec_burnFactor attacker move)) (randomFactor u))
   \<and> (move_type move = ''special'' \<longrightarrow>
      calculateDamage u attacker defender move =
        spec_damage_js (level attacker) (power move)
          (specialAttack (stats attacker)) (specialDefense (stats defender))
          (calculateTypeEffectiveness (move_type move) (map type_name (types defender)))
          (Fin (spec_burnFactor attacker move)) (randomFactor u))"
  by (simp add: calculateDamage_def spec_damage_js_def spec_burnFactor_def
        attackStat_def defenseStat_def Let_def)

theorem calculateDamage_stat_pair_witness:
  "move_type slam = ''physical''
   \<and> calculateDamage 0 playerBulbasaur opponentCharmander slam =
        spec_damage_js (Fin 50) (Fin 80) (Fin 49) (Fin 43)
          (calculateTypeEffectiveness ''physical'' [''fire'']) (Fin 1) (randomFactor 0)
   \<and> calculateDamage 0 playerBulbasaur opponentCharmander slam = Fin 35
   \<and> move_type psybeam = ''special''
   \<and> calculateDamage 0 playerBulbasaur opponentCharmander psybeam =
        spec_damage_js (Fin 50) (Fin 65) (Fin 65) (Fin 50)
          (calculateTypeEffectiveness ''special'' [''fire'']) (Fin 1) (randomFactor 0)
   \<and> calculateDamage 0 playerBulbasaur opponentCharmander psybeam = Fin 33"
proof -
  have a: "move_type slam = ''physical''" by (simp add: slam_def)
  have b: "move_type psybeam = ''special''" by (simp add: psybeam_def)
  have c: "calculateDamage 0 playerBulbasaur opponentCharmander slam = Fin 35" by code_simp
  have d: "calculateDamage 0 playerBulbasaur opponentCharmander psybeam = Fin 33" by code_simp
  have e: "spec_damage_js (Fin 50) (Fin 80) (Fin 49) (Fin 43)
          (calculateTypeEffectiveness ''physical'' [''fire'']) (Fin 1) (randomFactor 0) = Fin 35"
    by code_simp
  have f: "spec_damage_js (Fin 50) (Fin 65) (Fin 65) (Fin 50)
          (calculateTypeEffectiveness ''special'' [''fire'']) (Fin 1) (randomFactor 0) = Fin 33"
    by code_simp
  show ?thesis
    using a b
      calculateDamage_stat_pair [of slam 0 playerBulbasaur opponentCharmander]
      calculateDamage_stat_pair [of psybeam 0 playerBulbasaur opponentCharmander]
    unfolding e f
    by (simp add: c d e f)
qed

lemma chartEntry_cases:
  "chartEntry a t = None \<or> chartEntry a t = Some (Fin (1/2)) \<or> chartEntry a t = Some (Fin 2)"
  by (simp add: chartEntry_def typeChart_def)

lemma chartValue_pos: "0 < chartValue a t"
  using chartEntry_cases [of a t] by (auto simp: chartValue_def)

lemma spec_effectiveness_pos: "0 < spec_effectiveness a ts"
  by (induction ts) (simp_all add: spec_effectiveness_def chartValue_pos)

lemma effectivenessLoop_spec:
  "effectivenessLoop a (Fin e) ts = Fin (e * spec_effectiveness a ts)"
proof (induction ts arbitrary: e)
  case Nil
  then show ?case by (simp add: spec_effectiveness_def)
next
  case (Cons t ts)
  have step: "(case chartEntry a t of None \<Rightarrow> Fin e
               | Some v \<Rightarrow> if truthy v then jmul (Fin e) v else Fin e)
              = Fin (e * chartValue a t)"
    using chartEntry_cases [of a t] by (auto simp: chartValue_def)
  show ?case
    by (simp add: step Cons.IH) (simp add: spec_effectiveness_def mult.assoc)
qed

lemma calculateTypeEffectiveness_spec:
  "calculateTypeEffectiveness a ts = Fin (spec_effectiveness a ts)"
  by (simp add: calculateTypeEffectiveness_def effectivenessLoop_spec)

lemma spec_damage_nonneg:
  assumes "0 \<le> l" "0 \<le> p" "0 \<le> x" "0 < y" "0 < e" "0 \<le> b" "0 \<le> r"
  shows "0 \<le> spec_damage l p x y e b r"
proof -
  have "0 \<le> ((2 * l / 5 + 2) * p * x / y) / 50"
    using assms by simp
  then have "0 \<le> \<lfloor>((2 * l / 5 + 2) * p * x / y) / 50\<rfloor>"
    by (simp only: zero_le_floor)
  then have "0 \<le> \<lfloor>((2 * l / 5 + 2) * p * x / y) / 50 + 2\<rfloor>"
    by simp
  then have "0 \<le> (of_int \<lfloor>((2 * l / 5 + 2) * p * x / y) / 50 + 2\<rfloor> :: rat) * e * b * r"
    using assms by simp
  then show ?thesis
    by (simp add: spec_damage_def)
qed





section \<open>Both combatants at zero\<close>

lemma statusUpkeep_healthy:
  "status_type (status p) \<noteq> Burn \<Longrightarrow> status_type (status p) \<noteq> Poison
     \<Longrightarrow> currentHp (fst (statusUpkeep p)) = currentHp p"
  by (simp add: statusUpkeep_def Let_def split: StatusType.splits)

lemma playerAttack_player [simp]:
  "currentHp (playerPokemon (playerAttack uh ud pm s)) = currentHp (playerPokemon s)"
  by (simp add: playerAttack_def Let_def)

lemma opponentAttack_skipped:
  "\<not> jlt (Fin 0) (currentHp (opponentPokemon st))
     \<Longrightarrow> opponentAttack uh ud om st = Returned st"
  by (simp add: opponentAttack_def)

lemma jlt_zero_not_zero: "jlt (Fin 0) x \<Longrightarrow> x \<noteq> Fin 0"
  by (cases x) auto

lemma opponentAttack_not_both_zero:
  assumes "jlt (Fin 0) (currentHp (playerPokemon st))"
  shows "\<not> (currentHp (playerPokemon (resultState (opponentAttack uh ud om st))) = Fin 0
           \<and> currentHp (opponentPokemon (resultState (opponentAttack uh ud om st))) = Fin 0)"
proof (cases "jlt (Fin 0) (currentHp (opponentPokemon st))")
  case True
  then have "currentHp (opponentPokemon (resultState (opponentAttack uh ud om st))) \<noteq> Fin 0"
    by (auto simp: opponentAttack_def Let_def dest: jlt_zero_not_zero split: option.splits)
  then show ?thesis by simp
next
  case False
  then show ?thesis
    using assms by (auto simp: opponentAttack_skipped dest: jlt_zero_not_zero)
qed





section \<open>Turns that leave the specification\<close>

text \<open>
  Where the range of the hit points is kept: by the clamp of a damage that is a number
  and not negative, by the status upkeep, and by a heal that is not negative, each for a
  combatant whose hit points are finite.
\<close>

lemma damage_clamp_in_range:
  assumes "hpInRange p" and "isFinite (currentHp p)" and "jle (Fin 0) d"
  shows "hpInRange (p\<lparr>currentHp := jmax (Fin 0) (jsub (currentHp p) d)\<rparr>)"
  using assms
  by (cases "currentHp p"; cases d; cases "hp (stats p)")
     (auto simp: hpInRange_def jsub_def)

lemma statusUpkeep_in_range:
  assumes "hpInRange p" and "isFinite (currentHp p)"
  shows "hpInRange (fst (statusUpkeep p))"
proof -
  have nonneg: "jle (Fin 0) (jfloor (jmul (hp (stats p)) (Fin q)))" if "0 < q" for q
    using assms that
    by (cases "currentHp p"; cases "hp (stats p)") (auto simp: hpInRange_def infsgn_def)
  have b: "hpInRange (p\<lparr>currentHp := jmax (Fin 0)
              (jsub (currentHp p) (jfloor (jmul (hp (stats p)) (Fin (1/10)))))\<rparr>)"
    by (rule damage_clamp_in_range [OF assms]) (rule nonneg, simp)
  have c: "hpInRange (p\<lparr>currentHp := jmax (Fin 0)
              (jsub (currentHp p) (jfloor (jmul (hp (stats p)) (Fin (8/100)))))\<rparr>)"
    by (rule damage_clamp_in_range [OF assms]) (rule nonneg, simp)
  have s: "hpInRange (q\<lparr>status := st\<rparr>) = hpInRange q" for q st
    by (simp add: hpInRange_def)
  show ?thesis
    using assms(1) b c
    by (simp add: statusUpkeep_def Let_def s split: StatusType.splits)
qed

lemma heal_in_range:
  assumes "hpInRange p" and "isFinite (currentHp p)" and "jle (Fin 0) h"
  shows "hpInRange (p\<lparr>currentHp := jmin (hp (stats p)) (jadd (currentHp p) h)\<rparr>)"
  using assms
  by (cases "currentHp p"; cases h; cases "hp (stats p)")
     (auto simp: hpInRange_def)

text \<open>
  Claim C3 does not hold of the code. The encounter is the one \<open>start_battle\<close> stores
  when the opponent's statistics request fails; both combatants have their hit points in
  range. The player uses a move of power 0: the damage is \<open>NaN\<close>,
  \<open>Math.max(0, 0 - NaN)\<close> is \<open>NaN\<close>, and the opponent's hit points are no longer
  between 0 and its maximum.
\<close>

theorem make_move_hp_NaN:
  "snd (start_battle catalogStatsDown (Fin 1) (Fin 4) freshServer) = zeroStatsServer
   \<and> hpInRange (playerPokemon zeroStatsEncounter)
   \<and> hpInRange (opponentPokemon zeroStatsEncounter)
   \<and> currentBattle (snd (make_move sampleDraws (Fin 1) zeroStatsServer))
       = Some (zeroStatsEncounter
                 \<lparr>opponentPokemon := zeroCharmander\<lparr>currentHp := NaN\<rparr>, turn := Fin 2,
                  battleLog := [''bulbasaur used growl!'', ''charmander took NaN damage!'']\<rparr>)
   \<and> \<not> hpInRange (zeroCharmander\<lparr>currentHp := NaN\<rparr>)"
  by code_simp

text \<open>
  Claim C6 does not hold of the code. After a first turn the player, who has two moves,
  calls \<open>make_move\<close> with index 3, which the handler's schema admits. The turn clears
  the battle log, reads \<open>moves[3]\<close>, and \<open>isMoveHit\<close> throws a \<open>TypeError\<close>
  on the \<open>undefined\<close> move: no message about the index is returned, and the stored
  encounter has lost its log.
\<close>

theorem make_move_index_out_of_range:
  "snd (start_battle catalogOk (Fin 1) (Fin 4) freshServer) = sampleServer
   \<and> snd (make_move sampleDraws (Fin 0) sampleServer) = sampleServer\<lparr>currentBattle := Some afterFirstTurn\<rparr>
   \<and> length (moves (playerPokemon afterFirstTurn)) = 2
   \<and> make_move sampleDraws (Fin 3) (sampleServer\<lparr>currentBattle := Some afterFirstTurn\<rparr>)
       = (Raised TypeError, sampleServer\<lparr>currentBattle := Some (afterFirstTurn\<lparr>battleLog := []\<rparr>)\<rparr>)
   \<and> afterFirstTurn\<lparr>battleLog := []\<rparr> \<noteq> afterFirstTurn"
  by code_simp

text \<open>
  Claim C8 does not hold of the code. The text \<open>make_move\<close> returns is not built from
  the battle log of the turn: it has no damage line, and it names the opponent's move
  from a second random draw (here \<open>ember\<close>) while the turn executed \<open>scratch\<close>.
\<close>

theorem make_move_text_not_the_log:
  "make_move sampleDraws (Fin 0) sampleServer =
     (Text (''Turn 2:\<newline>bulbasaur used tackle!\<newline>charmander used ember!\<newline>\<newline>''
            @ ''bulbasaur HP: 30/45\<newline>charmander HP: 19/39\<newline>''),
      sampleServer\<lparr>currentBattle := Some afterFirstTurn\<rparr>)
   \<and> battleLog afterFirstTurn =
       [''bulbasaur used tackle!'', ''charmander took 20 damage!'',
        ''charmander used scratch!'', ''bulbasaur took 15 damage!'']"
  by code_simp


end
